theory Spec2Isabelle
  imports
    Complex_Main
    "HOL-Library.Char_ord"
    "HOL-Library.List_Lexorder"
    "HOL-Library.Product_Lexorder"
    "HOL-Library.Sublist"
    "HOL-Library.Multiset"
begin

section \<open>Data model of the finance tracker (app.py)\<close>

text \<open>
  The session state of the application holds four collections: the transaction list, the
  budget dictionary, the goal list and the recurring list.  A pandas data frame is modelled
  as the list of its rows, in row order.

  Amounts are Python floats in the source.  They are modelled as exact real numbers: rounding,
  infinities and NaN are outside this development.  The results below are about which
  records are selected, under which keys, guards and order; no result is stated whose truth
  depends on how a sum of doubles is rounded, such as the independence of a total from the
  order of its summands.

  A calendar date is the triple (year, month, day); the lexicographic order on such triples
  is the chronological order.  The source stores a date as the string produced by
  \<^verbatim>\<open>strftime('%Y-%m-%d')\<close> and parses it back in \<^verbatim>\<open>get_dataframe\<close>; the model keeps
  the triple throughout.  A point in time is a date paired with the microsecond of the day.
\<close>

type_synonym date = "nat \<times> nat \<times> nat"
type_synonym datetime = "date \<times> nat"

datatype py_error = IndexError | ZeroDivisionError | OverflowError

record transaction =
  date :: date
  category :: string
  amount :: real
  type :: string
  description :: string
  tags :: "string list"
  tid :: nat

record goal =
  goal_name :: string
  goal_target :: real
  goal_deadline :: date
  goal_category :: string
  goal_created :: date

record recurring_entry =
  rec_category :: string
  rec_amount :: real
  rec_frequency :: string
  rec_type :: string
  rec_active :: bool

text \<open>
  A Python dict keeps its keys in insertion order; assigning to a key that is present
  replaces the value and keeps the key's position.  The budget dictionary is therefore an
  association list.
\<close>

type_synonym budget_dict = "(string \<times> real) list"

record session_state =
  transactions :: "transaction list"
  budgets :: budget_dict
  goals :: "goal list"
  recurring :: "recurring_entry list"

definition initial_state :: session_state where
  "initial_state = \<lparr>transactions = [], budgets = [], goals = [], recurring = []\<rparr>"

subsection \<open>Mutators\<close>

definition add_transaction ::
  "session_state \<Rightarrow> date \<Rightarrow> string \<Rightarrow> real \<Rightarrow> string \<Rightarrow> string \<Rightarrow> string list option
    \<Rightarrow> session_state" where
  "add_transaction s d cat amt transaction_type descr tgs =
     (let transaction =
        \<lparr>date = d, category = cat, amount = amt, type = transaction_type,
         description = descr,
         tags = (case tgs of None \<Rightarrow> [] | Some ts \<Rightarrow> ts),
         tid = length (transactions s)\<rparr>
      in s\<lparr>transactions := transactions s @ [transaction]\<rparr>)"

text \<open>One recorded call of \<open>add_transaction\<close>, and the replay of a sequence of calls.\<close>

type_synonym transaction_input =
  "date \<times> string \<times> real \<times> string \<times> string \<times> string list option"

fun add_transaction_input :: "session_state \<Rightarrow> transaction_input \<Rightarrow> session_state" where
  "add_transaction_input s (d, cat, amt, ty, descr, tgs) = add_transaction s d cat amt ty descr tgs"

definition append_all :: "session_state \<Rightarrow> transaction_input list \<Rightarrow> session_state" where
  "append_all s inputs = foldl add_transaction_input s inputs"

definition dict_set :: "('k \<times> 'v) list \<Rightarrow> 'k \<Rightarrow> 'v \<Rightarrow> ('k \<times> 'v) list" where
  "dict_set d k v =
     (if k \<in> fst ` set d
      then map (\<lambda>(k', v'). if k' = k then (k', v) else (k', v')) d
      else d @ [(k, v)])"

definition add_budget :: "session_state \<Rightarrow> string \<Rightarrow> real \<Rightarrow> string \<Rightarrow> session_state" where
  "add_budget s cat amt month =
     (let key = cat @ ''_'' @ month
      in s\<lparr>budgets := dict_set (budgets s) key amt\<rparr>)"

text \<open>The replay of a sequence of \<open>add_budget\<close> calls (category, amount, month).\<close>

definition set_budgets :: "session_state \<Rightarrow> (string \<times> real \<times> string) list \<Rightarrow> session_state" where
  "set_budgets s calls = foldl (\<lambda>s (cat, amt, month). add_budget s cat amt month) s calls"

definition add_goal ::
  "session_state \<Rightarrow> string \<Rightarrow> real \<Rightarrow> date \<Rightarrow> string \<Rightarrow> datetime \<Rightarrow> session_state" where
  "add_goal s name target_amount deadline cat now =
     (let g = \<lparr>goal_name = name, goal_target = target_amount, goal_deadline = deadline,
               goal_category = cat, goal_created = fst now\<rparr>
      in s\<lparr>goals := goals s @ [g]\<rparr>)"

definition add_recurring ::
  "session_state \<Rightarrow> string \<Rightarrow> real \<Rightarrow> string \<Rightarrow> string \<Rightarrow> session_state" where
  "add_recurring s cat amt frequency transaction_type =
     (let r = \<lparr>rec_category = cat, rec_amount = amt, rec_frequency = frequency,
               rec_type = transaction_type, rec_active = True\<rparr>
      in s\<lparr>recurring := recurring s @ [r]\<rparr>)"

text \<open>
  Python's \<^verbatim>\<open>list.pop(i)\<close>: a negative index counts from the end; an index outside the
  list raises IndexError and leaves the list as it was.  The result pairs the outcome with
  the list after the call.
\<close>

definition pop :: "'a list \<Rightarrow> int \<Rightarrow> (py_error + 'a) \<times> 'a list" where
  "pop xs i =
     (let n = int (length xs); j = (if i < 0 then i + n else i)
      in if 0 \<le> j \<and> j < n
         then (Inr (xs ! nat j), take (nat j) xs @ drop (Suc (nat j)) xs)
         else (Inl IndexError, xs))"

text \<open>
  The delete buttons of the Goals and Recurring pages: \<open>idx\<close> is the position that
  \<^verbatim>\<open>enumerate\<close> gave to the entry, a natural number.  The result is the error raised, if
  any, and the session state after the call.
\<close>

definition delete_goal :: "session_state \<Rightarrow> nat \<Rightarrow> py_error option \<times> session_state" where
  "delete_goal s idx =
     (case pop (goals s) (int idx) of
        (Inl e, gs) \<Rightarrow> (Some e, s\<lparr>goals := gs\<rparr>)
      | (Inr g, gs) \<Rightarrow> (None, s\<lparr>goals := gs\<rparr>))"

definition delete_rec :: "session_state \<Rightarrow> nat \<Rightarrow> py_error option \<times> session_state" where
  "delete_rec s idx =
     (case pop (recurring s) (int idx) of
        (Inl e, rs) \<Rightarrow> (Some e, s\<lparr>recurring := rs\<rparr>)
      | (Inr r, rs) \<Rightarrow> (None, s\<lparr>recurring := rs\<rparr>))"

subsection \<open>Calendar arithmetic\<close>

text \<open>
  Days are counted by the proleptic Gregorian ordinal of a date, as Python's
  \<^verbatim>\<open>date.toordinal\<close> does.  An instant is a day ordinal paired with the microsecond of
  the day; instants are compared lexicographically.

  \<^verbatim>\<open>datetime.now() - timedelta(days=days)\<close> moves the date by whole days and keeps the time
  of day.  It raises OverflowError when \<open>days\<close> exceeds the range of \<^verbatim>\<open>timedelta\<close>
  (magnitude 999999999) or when the resulting date leaves the years 1 to 9999 (day ordinals
  1 to 3652059).  The pandas comparison of the date column with the cutoff is taken on
  instants; limits of the pandas timestamp range are not modelled.
\<close>

type_synonym instant = "int \<times> nat"

definition is_leap :: "nat \<Rightarrow> bool" where
  "is_leap y = (y mod 4 = 0 \<and> (y mod 100 \<noteq> 0 \<or> y mod 400 = 0))"

definition days_before_year :: "nat \<Rightarrow> int" where
  "days_before_year y =
     (let y1 = int y - 1 in y1 * 365 + y1 div 4 - y1 div 100 + y1 div 400)"

definition days_in_month :: "nat \<Rightarrow> nat \<Rightarrow> nat" where
  "days_in_month y m =
     (if m = 2 then (if is_leap y then 29 else 28)
      else if m = 4 \<or> m = 6 \<or> m = 9 \<or> m = 11 then 30 else 31)"

definition days_before_month :: "nat \<Rightarrow> nat \<Rightarrow> int" where
  "days_before_month y m = int (sum_list (map (days_in_month y) [1..<m]))"

fun toordinal :: "date \<Rightarrow> int" where
  "toordinal (y, m, d) = days_before_year y + days_before_month y m + int d"

definition timestamp :: "datetime \<Rightarrow> instant" where
  "timestamp dt = (toordinal (fst dt), snd dt)"

definition minus_days :: "datetime \<Rightarrow> int \<Rightarrow> py_error + instant" where
  "minus_days now days =
     (if \<bar>days\<bar> > 999999999 then Inl OverflowError
      else
        (let ordinal = fst (timestamp now) - days
         in if 1 \<le> ordinal \<and> ordinal \<le> 3652059
            then Inr (ordinal, snd (timestamp now))
            else Inl OverflowError))"

text \<open>\<^verbatim>\<open>pd.to_datetime\<close> of a date: midnight of that day.\<close>

definition to_datetime :: "date \<Rightarrow> instant" where
  "to_datetime d = timestamp (d, 0)"

fun to_period_M :: "date \<Rightarrow> nat \<times> nat" where
  "to_period_M (y, m, d) = (y, m)"

definition strftime_Ym :: "datetime \<Rightarrow> nat \<times> nat" where
  "strftime_Ym now = to_period_M (fst now)"

subsection \<open>pandas and string primitives\<close>

text \<open>
  \<^verbatim>\<open>groupby(keys)[col].sum()\<close>: one row per distinct key, in ascending key order, holding
  the sum of the column over the rows with that key.
\<close>

definition groupby_sum :: "('r \<Rightarrow> 'k::linorder) \<Rightarrow> ('r \<Rightarrow> real) \<Rightarrow> 'r list \<Rightarrow> ('k \<times> real) list" where
  "groupby_sum key col rows =
     map (\<lambda>k. (k, sum_list (map col (filter (\<lambda>r. key r = k) rows))))
       (sort (remdups (map key rows)))"

text \<open>\<^verbatim>\<open>Series.get(key, default)\<close>.\<close>

definition series_get :: "('k \<times> real) list \<Rightarrow> 'k \<Rightarrow> real \<Rightarrow> real" where
  "series_get ser k dflt = (case map_of ser k of None \<Rightarrow> dflt | Some v \<Rightarrow> v)"

text \<open>\<^verbatim>\<open>Series.unique()\<close>: the distinct values in order of first appearance.\<close>

fun unique_from :: "'a list \<Rightarrow> 'a list \<Rightarrow> 'a list" where
  "unique_from seen [] = []"
| "unique_from seen (x # xs) =
     (if x \<in> set seen then unique_from seen xs else x # unique_from (x # seen) xs)"

definition unique :: "'a list \<Rightarrow> 'a list" where
  "unique xs = unique_from [] xs"

text \<open>
  \<^verbatim>\<open>mean\<close>, \<^verbatim>\<open>max\<close> and \<^verbatim>\<open>min\<close> of a column; \<open>None\<close> stands for the NaN that pandas
  gives on an empty column.
\<close>

definition series_mean :: "real list \<Rightarrow> real option" where
  "series_mean xs = (if xs = [] then None else Some (sum_list xs / real (length xs)))"

definition series_max :: "real list \<Rightarrow> real option" where
  "series_max xs = (case xs of [] \<Rightarrow> None | x # ys \<Rightarrow> Some (fold max ys x))"

definition series_min :: "real list \<Rightarrow> real option" where
  "series_min xs = (case xs of [] \<Rightarrow> None | x # ys \<Rightarrow> Some (fold min ys x))"

text \<open>
  \<^verbatim>\<open>DataFrame.nlargest(n, col)\<close> with the default \<^verbatim>\<open>keep='first'\<close>: the first \<open>n\<close> rows in
  descending order of the column, rows with equal values in their original order; no row
  for \<open>n \<le> 0\<close>.
\<close>

definition nlargest :: "int \<Rightarrow> ('r \<Rightarrow> real) \<Rightarrow> 'r list \<Rightarrow> 'r list" where
  "nlargest n col rows = take (nat n) (sort_key (\<lambda>r. - col r) rows)"

text \<open>\<^verbatim>\<open>str.split(sep)\<close> for a one-character separator, and \<^verbatim>\<open>xs[i]\<close> for \<open>i \<ge> 0\<close>.\<close>

fun str_split :: "char \<Rightarrow> string \<Rightarrow> string list" where
  "str_split sep [] = [[]]"
| "str_split sep (c # cs) =
     (if c = sep then [] # str_split sep cs
      else (case str_split sep cs of [] \<Rightarrow> [[c]] | p # ps \<Rightarrow> (c # p) # ps))"

definition getitem :: "'a list \<Rightarrow> nat \<Rightarrow> py_error + 'a" where
  "getitem xs i = (if i < length xs then Inr (xs ! i) else Inl IndexError)"

text \<open>Python's \<^verbatim>\<open>a / b\<close> on floats.\<close>

definition truediv :: "real \<Rightarrow> real \<Rightarrow> py_error + real" where
  "truediv a b = (if b = 0 then Inl ZeroDivisionError else Inr (a / b))"

subsection \<open>Aggregation functions\<close>

definition get_dataframe :: "session_state \<Rightarrow> transaction list" where
  "get_dataframe s = (if transactions s = [] then [] else transactions s)"

definition calculate_balance :: "session_state \<Rightarrow> real" where
  "calculate_balance s =
     (let df = get_dataframe s in
      if df = [] then 0
      else
        (let income = sum_list (map amount (filter (\<lambda>t. type t = ''Income'') df));
             expenses = sum_list (map amount (filter (\<lambda>t. type t = ''Expense'') df))
         in income - expenses))"

definition get_spending_by_category ::
  "transaction list \<Rightarrow> (nat \<times> nat) option \<Rightarrow> (string \<times> real) list" where
  "get_spending_by_category df month =
     (let expense_df = filter (\<lambda>t. type t = ''Expense'') df;
          expense_df =
            (case month of
               None \<Rightarrow> expense_df
             | Some m \<Rightarrow>
                 if expense_df \<noteq> []
                 then filter (\<lambda>t. to_period_M (date t) = m) expense_df
                 else expense_df)
      in if expense_df \<noteq> [] then groupby_sum category amount expense_df else [])"

record alert =
  alert_category :: string
  alert_budget :: real
  alert_spent :: real
  alert_over :: real

text \<open>One iteration of the loop of \<open>check_budget_alerts\<close>, and the loop.\<close>

definition budget_alert :: "transaction list \<Rightarrow> string \<times> real \<Rightarrow> py_error + alert option" where
  "budget_alert df item =
     (case item of (budget_key, budget_amount) \<Rightarrow>
        (case getitem (str_split CHR ''_'' budget_key) 0 of
           Inl e \<Rightarrow> Inl e
         | Inr cat \<Rightarrow>
             (let spending = series_get (get_spending_by_category df None) cat 0
              in if spending > budget_amount
                 then Inr (Some \<lparr>alert_category = cat, alert_budget = budget_amount,
                                 alert_spent = spending, alert_over = spending - budget_amount\<rparr>)
                 else Inr None)))"

fun alerts_loop :: "transaction list \<Rightarrow> budget_dict \<Rightarrow> alert list \<Rightarrow> py_error + alert list" where
  "alerts_loop df [] alerts = Inr alerts"
| "alerts_loop df (item # items) alerts =
     (case budget_alert df item of
        Inl e \<Rightarrow> Inl e
      | Inr None \<Rightarrow> alerts_loop df items alerts
      | Inr (Some a) \<Rightarrow> alerts_loop df items (alerts @ [a]))"

definition check_budget_alerts ::
  "session_state \<Rightarrow> transaction list \<Rightarrow> datetime \<Rightarrow> py_error + alert list" where
  "check_budget_alerts s df now =
     (let alerts = [];
          current_month = strftime_Ym now
      in alerts_loop df (budgets s) alerts)"

definition get_trend_data ::
  "transaction list \<Rightarrow> int \<Rightarrow> datetime \<Rightarrow> py_error + ((date \<times> string) \<times> real) list option" where
  "get_trend_data df days now =
     (if df = [] then Inr None
      else
        (case minus_days now days of
           Inl e \<Rightarrow> Inl e
         | Inr cutoff_date \<Rightarrow>
             (let df_recent = filter (\<lambda>t. to_datetime (date t) \<ge> cutoff_date) df
              in if df_recent = [] then Inr None
                 else Inr (Some (groupby_sum (\<lambda>t. (date t, type t)) amount df_recent)))))"

record category_stat =
  stat_count :: nat
  stat_total :: real
  stat_average :: "real option"
  stat_max :: "real option"
  stat_min :: "real option"

definition calculate_category_stats :: "transaction list \<Rightarrow> (string \<times> category_stat) list" where
  "calculate_category_stats df =
     (if df = [] then []
      else
        map (\<lambda>cat.
               (let cat_df = filter (\<lambda>t. category t = cat) df
                in (cat,
                    \<lparr>stat_count = length cat_df,
                     stat_total = sum_list (map amount cat_df),
                     stat_average = series_mean (map amount cat_df),
                     stat_max = series_max (map amount cat_df),
                     stat_min = series_min (map amount cat_df)\<rparr>)))
          (unique (map category df)))"

record top_row =
  top_date :: date
  top_category :: string
  top_amount :: real
  top_type :: string
  top_description :: string

definition project :: "transaction \<Rightarrow> top_row" where
  "project t =
     \<lparr>top_date = date t, top_category = category t, top_amount = amount t,
      top_type = type t, top_description = description t\<rparr>"

definition get_top_transactions :: "transaction list \<Rightarrow> int \<Rightarrow> top_row list" where
  "get_top_transactions df n = (if df = [] then [] else map project (nlargest n amount df))"

subsection \<open>Percentages of the Budgets and Goals pages\<close>

definition usage_percentage :: "real \<Rightarrow> real \<Rightarrow> py_error + real" where
  "usage_percentage spending budget_amount =
     (if budget_amount > 0
      then (case truediv spending budget_amount of Inl e \<Rightarrow> Inl e | Inr q \<Rightarrow> Inr (q * 100))
      else Inr 0)"

record overview_row =
  ov_category :: string
  ov_budget :: real
  ov_spent :: real
  ov_remaining :: real
  ov_usage :: real

definition budget_overview_row :: "transaction list \<Rightarrow> string \<times> real \<Rightarrow> py_error + overview_row" where
  "budget_overview_row df item =
     (case item of (budget_key, budget_amount) \<Rightarrow>
        (case getitem (str_split CHR ''_'' budget_key) 0 of
           Inl e \<Rightarrow> Inl e
         | Inr cat \<Rightarrow>
             (let spending = series_get (get_spending_by_category df None) cat 0;
                  remaining = budget_amount - spending
              in case usage_percentage spending budget_amount of
                   Inl e \<Rightarrow> Inl e
                 | Inr percentage \<Rightarrow>
                     Inr \<lparr>ov_category = cat, ov_budget = budget_amount, ov_spent = spending,
                          ov_remaining = remaining, ov_usage = percentage\<rparr>)))"

fun overview_loop ::
  "transaction list \<Rightarrow> budget_dict \<Rightarrow> overview_row list \<Rightarrow> py_error + overview_row list" where
  "overview_loop df [] budget_data = Inr budget_data"
| "overview_loop df (item # items) budget_data =
     (case budget_overview_row df item of
        Inl e \<Rightarrow> Inl e
      | Inr row \<Rightarrow> overview_loop df items (budget_data @ [row]))"

definition budget_overview :: "session_state \<Rightarrow> py_error + overview_row list" where
  "budget_overview s =
     (if budgets s \<noteq> []
      then (let df = get_dataframe s; budget_data = [] in overview_loop df (budgets s) budget_data)
      else Inr [])"

definition progress_pct :: "real \<Rightarrow> real \<Rightarrow> py_error + real" where
  "progress_pct goal_category_spending target =
     (if target > 0
      then (case truediv goal_category_spending target of
              Inl e \<Rightarrow> Inl e
            | Inr q \<Rightarrow> Inr (q * 100))
      else Inr 0)"

definition goal_progress :: "transaction list \<Rightarrow> goal \<Rightarrow> py_error + real" where
  "goal_progress df g =
     (let goal_category_spending =
            series_get (get_spending_by_category df None) (goal_category g) 0
      in progress_pct goal_category_spending (goal_target g))"

fun goals_progress_loop :: "transaction list \<Rightarrow> goal list \<Rightarrow> real list \<Rightarrow> py_error + real list" where
  "goals_progress_loop df [] shown = Inr shown"
| "goals_progress_loop df (g # gs) shown =
     (case goal_progress df g of
        Inl e \<Rightarrow> Inl e
      | Inr p \<Rightarrow> goals_progress_loop df gs (shown @ [p]))"

definition goals_progress :: "session_state \<Rightarrow> py_error + real list" where
  "goals_progress s =
     (if goals s \<noteq> []
      then (let df = get_dataframe s in goals_progress_loop df (goals s) [])
      else Inr [])"

section \<open>The empty snapshot\<close>

text \<open>
  Claim C8.  On the empty snapshot every aggregation function returns its zero or empty
  result: the balance is 0, the category statistics and the category spending are empty,
  the trend is the no-data value \<open>None\<close>, returned normally whatever the window, and the top
  transactions are the empty sequence.
\<close>

theorem empty_snapshot_results:
  "calculate_balance initial_state = 0
   \<and> calculate_category_stats (get_dataframe initial_state) = []
   \<and> get_spending_by_category (get_dataframe initial_state) month = []
   \<and> get_trend_data (get_dataframe initial_state) days now = Inr None
   \<and> get_top_transactions (get_dataframe initial_state) n = []"
proof -
  have df: "get_dataframe initial_state = []"
    by (simp add: get_dataframe_def initial_state_def)
  have "calculate_balance initial_state = 0"
    by (simp add: calculate_balance_def df)
  moreover have "calculate_category_stats [] = []"
    by (simp add: calculate_category_stats_def)
  moreover have "get_spending_by_category [] month = []"
    by (cases month) (simp_all add: get_spending_by_category_def)
  moreover have "get_trend_data [] days now = Inr None"
    by (simp add: get_trend_data_def)
  moreover have "get_top_transactions [] n = []"
    by (simp add: get_top_transactions_def)
  ultimately show ?thesis
    by (simp add: df)
qed

section \<open>Percentages\<close>

lemma str_split_not_Nil: "str_split sep s \<noteq> []"
  by (induction s) (auto split: list.splits)

lemma getitem_str_split_0: "getitem (str_split sep s) 0 = Inr (takeWhile (\<lambda>x. x \<noteq> sep) s)"
proof (induction s)
  case Nil
  show ?case by (simp add: getitem_def)
next
  case (Cons c s)
  then show ?case
    using str_split_not_Nil [of sep s]
    by (auto simp: getitem_def split: list.splits if_splits)
qed

lemma usage_percentage_value:
  "usage_percentage sp b = Inr (if b > 0 then sp / b * 100 else 0)"
  by (simp add: usage_percentage_def truediv_def)

lemma progress_pct_value:
  "progress_pct sp t = Inr (if t > 0 then sp / t * 100 else 0)"
  by (simp add: progress_pct_def truediv_def)

lemma budget_overview_row_Inr: "\<exists>row. budget_overview_row df item = Inr row"
  by (cases item) (simp add: budget_overview_row_def getitem_str_split_0 usage_percentage_value Let_def)

lemma overview_loop_Inr: "\<exists>rows. overview_loop df items acc = Inr rows"
proof (induction items arbitrary: acc)
  case Nil
  show ?case by simp
next
  case (Cons item items)
  obtain row where "budget_overview_row df item = Inr row"
    using budget_overview_row_Inr by blast
  then show ?case
    using Cons.IH by simp
qed

lemma goals_progress_loop_Inr: "\<exists>ps. goals_progress_loop df gs acc = Inr ps"
proof (induction gs arbitrary: acc)
  case Nil
  show ?case by simp
next
  case (Cons g gs)
  have "\<exists>p. goal_progress df g = Inr p"
    by (simp add: goal_progress_def progress_pct_value Let_def)
  then show ?case
    using Cons.IH by auto
qed

text \<open>
  Claim C9.  The budget usage percentage and the goal progress percentage never raise
  ZeroDivisionError: the division is only reached under a positive denominator, and a zero
  or negative denominator gives 0.  The loops of the Budgets and Goals pages compute their
  rows and percentages without an error.
\<close>

theorem percentage_division_guarded:
  "usage_percentage spending budget_amount \<noteq> Inl ZeroDivisionError
   \<and> (budget_amount \<le> 0 \<longrightarrow> usage_percentage spending budget_amount = Inr 0)
   \<and> progress_pct spending target \<noteq> Inl ZeroDivisionError
   \<and> (target \<le> 0 \<longrightarrow> progress_pct spending target = Inr 0)
   \<and> (\<exists>rows. budget_overview s = Inr rows)
   \<and> (\<exists>ps. goals_progress s = Inr ps)"
proof (intro conjI impI)
  show "usage_percentage spending budget_amount \<noteq> Inl ZeroDivisionError"
    by (simp add: usage_percentage_value)
  show "progress_pct spending target \<noteq> Inl ZeroDivisionError"
    by (simp add: progress_pct_value)
  show "\<exists>rows. budget_overview s = Inr rows"
    using overview_loop_Inr [of "get_dataframe s" "budgets s" "[]"]
    by (simp add: budget_overview_def Let_def)
  show "\<exists>ps. goals_progress s = Inr ps"
    using goals_progress_loop_Inr [of "get_dataframe s" "goals s" "[]"]
    by (simp add: goals_progress_def Let_def)
next
  assume "budget_amount \<le> 0"
  then show "usage_percentage spending budget_amount = Inr 0"
    by (simp add: usage_percentage_value)
next
  assume "target \<le> 0"
  then show "progress_pct spending target = Inr 0"
    by (simp add: progress_pct_value)
qed

theorem percentage_division_guarded_witness:
  "usage_percentage 80 0 = Inr 0 \<and> progress_pct 80 (- 5) = Inr 0
   \<and> usage_percentage 80 0 \<noteq> Inl ZeroDivisionError"
  using percentage_division_guarded [of 80 0 "- 5" initial_state]
  by simp

section \<open>Removal by position\<close>

lemma pop_nat:
  "pop xs (int i) =
     (if i < length xs then (Inr (xs ! i), take i xs @ drop (Suc i) xs) else (Inl IndexError, xs))"
  by (simp add: pop_def Let_def)

lemma nth_take_drop:
  "i < length xs \<Longrightarrow>
     length (take i xs @ drop (Suc i) xs) = length xs - 1
     \<and> (\<forall>j<i. (take i xs @ drop (Suc i) xs) ! j = xs ! j)
     \<and> (\<forall>j. i \<le> j \<and> j < length xs - 1 \<longrightarrow> (take i xs @ drop (Suc i) xs) ! j = xs ! Suc j)"
  by (auto simp: nth_append min_def)


lemma delete_goal_eq:
  "delete_goal s idx =
     (if idx < length (goals s)
      then (None, s\<lparr>goals := take idx (goals s) @ drop (Suc idx) (goals s)\<rparr>)
      else (Some IndexError, s))"
  by (simp add: delete_goal_def pop_nat)

lemma delete_rec_eq:
  "delete_rec s idx =
     (if idx < length (recurring s)
      then (None, s\<lparr>recurring := take idx (recurring s) @ drop (Suc idx) (recurring s)\<rparr>)
      else (Some IndexError, s))"
  by (simp add: delete_rec_def pop_nat)

text \<open>
  Claim C6.  Deleting position \<open>idx\<close> from a goal or recurring registry of length \<open>L\<close>: when
  \<open>idx < L\<close> the call succeeds, the registry is one shorter, the entries before \<open>idx\<close> keep
  their positions and every later entry moves one position down; when \<open>idx \<ge> L\<close> the call
  raises IndexError and the session state is unchanged.
\<close>

theorem delete_at_index:
  "(idx < length (goals s) \<longrightarrow>
      fst (delete_goal s idx) = None
      \<and> length (goals (snd (delete_goal s idx))) = length (goals s) - 1
      \<and> (\<forall>j<idx. goals (snd (delete_goal s idx)) ! j = goals s ! j)
      \<and> (\<forall>j. idx \<le> j \<and> j < length (goals s) - 1 \<longrightarrow>
            goals (snd (delete_goal s idx)) ! j = goals s ! Suc j))
   \<and> (length (goals s) \<le> idx \<longrightarrow> delete_goal s idx = (Some IndexError, s))
   \<and> (idx < length (recurring s) \<longrightarrow>
      fst (delete_rec s idx) = None
      \<and> length (recurring (snd (delete_rec s idx))) = length (recurring s) - 1
      \<and> (\<forall>j<idx. recurring (snd (delete_rec s idx)) ! j = recurring s ! j)
      \<and> (\<forall>j. idx \<le> j \<and> j < length (recurring s) - 1 \<longrightarrow>
            recurring (snd (delete_rec s idx)) ! j = recurring s ! Suc j))
   \<and> (length (recurring s) \<le> idx \<longrightarrow> delete_rec s idx = (Some IndexError, s))"
proof (intro conjI impI)
  assume "idx < length (goals s)"
  then show "fst (delete_goal s idx) = None"
    and "length (goals (snd (delete_goal s idx))) = length (goals s) - 1"
    and "\<forall>j<idx. goals (snd (delete_goal s idx)) ! j = goals s ! j"
    and "\<forall>j. idx \<le> j \<and> j < length (goals s) - 1 \<longrightarrow>
            goals (snd (delete_goal s idx)) ! j = goals s ! Suc j"
    using nth_take_drop [of idx "goals s"] by (simp_all add: delete_goal_eq)
next
  assume "length (goals s) \<le> idx"
  then show "delete_goal s idx = (Some IndexError, s)"
    by (simp add: delete_goal_eq)
next
  assume "idx < length (recurring s)"
  then show "fst (delete_rec s idx) = None"
    and "length (recurring (snd (delete_rec s idx))) = length (recurring s) - 1"
    and "\<forall>j<idx. recurring (snd (delete_rec s idx)) ! j = recurring s ! j"
    and "\<forall>j. idx \<le> j \<and> j < length (recurring s) - 1 \<longrightarrow>
            recurring (snd (delete_rec s idx)) ! j = recurring s ! Suc j"
    using nth_take_drop [of idx "recurring s"] by (simp_all add: delete_rec_eq)
next
  assume "length (recurring s) \<le> idx"
  then show "delete_rec s idx = (Some IndexError, s)"
    by (simp add: delete_rec_eq)
qed

theorem delete_at_index_witness:
  "goals (snd (delete_goal
      (add_goal (add_goal (add_goal initial_state ''Trip'' 900 (2026, 6, 1) ''Vacation'' ((2025, 1, 20), 0))
         ''Car'' 5000 (2027, 1, 1) ''Vehicle'' ((2025, 1, 20), 0))
         ''Fund'' 300 (2026, 1, 1) ''Emergency'' ((2025, 1, 20), 0)) 1))
   = goals (add_goal (add_goal initial_state ''Trip'' 900 (2026, 6, 1) ''Vacation'' ((2025, 1, 20), 0))
         ''Fund'' 300 (2026, 1, 1) ''Emergency'' ((2025, 1, 20), 0))
   \<and> delete_goal initial_state 0 = (Some IndexError, initial_state)
   \<and> delete_rec (add_recurring initial_state ''Rent'' 700 ''Monthly'' ''Expense'') 0 = (None, initial_state)
   \<and> delete_rec (add_recurring initial_state ''Rent'' 700 ''Monthly'' ''Expense'') 1
       = (Some IndexError, add_recurring initial_state ''Rent'' 700 ''Monthly'' ''Expense'')"
proof -
  let ?s3 = "add_goal (add_goal (add_goal initial_state ''Trip'' 900 (2026, 6, 1) ''Vacation'' ((2025, 1, 20), 0))
         ''Car'' 5000 (2027, 1, 1) ''Vehicle'' ((2025, 1, 20), 0))
         ''Fund'' 300 (2026, 1, 1) ''Emergency'' ((2025, 1, 20), 0)"
  let ?r1 = "add_recurring initial_state ''Rent'' 700 ''Monthly'' ''Expense''"
  have len: "length (goals ?s3) = 3"
    by (simp add: add_goal_def initial_state_def Let_def)
  have a: "goals (snd (delete_goal ?s3 1)) ! 0 = goals ?s3 ! 0"
    and b: "goals (snd (delete_goal ?s3 1)) ! 1 = goals ?s3 ! 2"
    and c: "length (goals (snd (delete_goal ?s3 1))) = 2"
    using delete_at_index [of 1 ?s3] len by (simp_all add: numeral_2_eq_2)
  have "goals (snd (delete_goal ?s3 1)) = [goals ?s3 ! 0, goals ?s3 ! 2]"
  proof (rule nth_equalityI)
    show "length (goals (snd (delete_goal ?s3 1))) = length [goals ?s3 ! 0, goals ?s3 ! 2]"
      using c by simp
  next
    fix i assume "i < length (goals (snd (delete_goal ?s3 1)))"
    then have "i = 0 \<or> i = 1" using c by auto
    then show "goals (snd (delete_goal ?s3 1)) ! i = [goals ?s3 ! 0, goals ?s3 ! 2] ! i"
      using a b by auto
  qed
  then have g: "goals (snd (delete_goal ?s3 1))
      = goals (add_goal (add_goal initial_state ''Trip'' 900 (2026, 6, 1) ''Vacation'' ((2025, 1, 20), 0))
         ''Fund'' 300 (2026, 1, 1) ''Emergency'' ((2025, 1, 20), 0))"
    by (simp add: add_goal_def initial_state_def Let_def)
  have e: "delete_goal initial_state 0 = (Some IndexError, initial_state)"
    using delete_at_index [of 0 initial_state] by (simp add: initial_state_def)
  have r1: "delete_rec ?r1 1 = (Some IndexError, ?r1)"
    using delete_at_index [of 1 ?r1] by (simp add: add_recurring_def initial_state_def Let_def)
  have "delete_rec ?r1 0 = (None, initial_state)"
    by (simp add: delete_rec_eq add_recurring_def initial_state_def Let_def)
  with g e r1 show ?thesis by simp
qed


section \<open>The budget registry\<close>

lemma map_fst_replace:
  "map fst (map (\<lambda>(k', v'). if k' = k then (k', v) else (k', v')) d) = map fst d"
  by (induction d) (simp_all split: prod.splits)

lemma map_fst_dict_set:
  "map fst (dict_set d k v) = (if k \<in> fst ` set d then map fst d else map fst d @ [k])"
  by (simp add: dict_set_def map_fst_replace del: map_map)

lemma distinct_dict_set: "distinct (map fst d) \<Longrightarrow> distinct (map fst (dict_set d k v))"
  by (simp add: map_fst_dict_set)

lemma map_of_replace:
  "map_of (map (\<lambda>(k', v'). if k' = k then (k', v) else (k', v')) d) k =
     (if k \<in> fst ` set d then Some v else None)"
  by (induction d) (simp_all split: prod.splits)

lemma map_of_dict_set: "map_of (dict_set d k v) k = Some v"
proof (cases "k \<in> fst ` set d")
  case True
  then show ?thesis
    by (simp add: dict_set_def map_of_replace)
next
  case False
  then have "map_of d k = None"
    by (simp add: map_of_eq_None_iff)
  then show ?thesis
    using False by (simp add: dict_set_def map_add_def)
qed

lemma key_in_dict_set: "k \<in> fst ` set (dict_set d k v)"
proof -
  have "k \<in> set (map fst (dict_set d k v))"
    by (simp only: map_fst_dict_set) simp
  then show ?thesis by simp
qed

lemma count_key_distinct:
  "distinct (map fst d) \<Longrightarrow> length (filter (\<lambda>e. fst e = k) d) = (if k \<in> fst ` set d then 1 else 0)"
proof (induction d)
  case Nil
  show ?case by simp
next
  case (Cons e d)
  then show ?case by (cases e) (auto simp: filter_empty_conv)
qed

lemma budgets_add_budget: "budgets (add_budget s c a m) = dict_set (budgets s) (c @ ''_'' @ m) a"
  by (simp add: add_budget_def Let_def)

lemma distinct_set_budgets:
  "distinct (map fst (budgets s)) \<Longrightarrow> distinct (map fst (budgets (set_budgets s calls)))"
  unfolding set_budgets_def
proof (induction calls arbitrary: s)
  case Nil
  then show ?case by simp
next
  case (Cons call calls)
  obtain c a m where call: "call = (c, a, m)" by (cases call) auto
  have "distinct (map fst (budgets (add_budget s c a m)))"
    using Cons.prems by (simp add: budgets_add_budget distinct_dict_set)
  then show ?case
    using Cons.IH [of "add_budget s c a m"] by (simp add: call)
qed

text \<open>
  Claim C7.  Setting a budget twice for the same category and month leaves the later
  amount under the key of that pair and, in a registry with distinct keys, exactly one entry
  for it; after any sequence of \<open>add_budget\<close> calls from the empty registry there is at most
  one entry per category and month.
\<close>

theorem add_budget_overwrites:
  "map_of (budgets (add_budget (add_budget s c a1 m) c a2 m)) (c @ ''_'' @ m) = Some a2
   \<and> (distinct (map fst (budgets s)) \<longrightarrow>
        length (filter (\<lambda>e. fst e = c @ ''_'' @ m)
                 (budgets (add_budget (add_budget s c a1 m) c a2 m))) = 1)
   \<and> length (filter (\<lambda>e. fst e = c' @ ''_'' @ m') (budgets (set_budgets initial_state calls))) \<le> 1"
proof (intro conjI impI)
  show "map_of (budgets (add_budget (add_budget s c a1 m) c a2 m)) (c @ ''_'' @ m) = Some a2"
    by (simp add: budgets_add_budget map_of_dict_set)
next
  assume "distinct (map fst (budgets s))"
  then have "distinct (map fst (budgets (add_budget (add_budget s c a1 m) c a2 m)))"
    by (simp add: budgets_add_budget distinct_dict_set)
  then show "length (filter (\<lambda>e. fst e = c @ ''_'' @ m)
                 (budgets (add_budget (add_budget s c a1 m) c a2 m))) = 1"
    using key_in_dict_set [of "c @ ''_'' @ m" "dict_set (budgets s) (c @ ''_'' @ m) a1" a2]
    by (simp add: count_key_distinct budgets_add_budget)
next
  have "distinct (map fst (budgets (set_budgets initial_state calls)))"
    by (rule distinct_set_budgets) (simp add: initial_state_def)
  then show "length (filter (\<lambda>e. fst e = c' @ ''_'' @ m')
               (budgets (set_budgets initial_state calls))) \<le> 1"
    by (simp add: count_key_distinct)
qed

theorem add_budget_overwrites_witness:
  "distinct (map fst (budgets (add_budget initial_state ''Health'' 40 ''2025-01'')))
   \<and> budgets (add_budget (add_budget (add_budget initial_state ''Health'' 40 ''2025-01'')
                 ''Food'' 60 ''2025-01'') ''Food'' 75 ''2025-01'')
     = [(''Health_2025-01'', 40), (''Food_2025-01'', 75)]
   \<and> map_of (budgets (add_budget (add_budget (add_budget initial_state ''Health'' 40 ''2025-01'')
                 ''Food'' 60 ''2025-01'') ''Food'' 75 ''2025-01'')) ''Food_2025-01'' = Some 75
   \<and> length (filter (\<lambda>e. fst e = ''Food_2025-01'')
       (budgets (add_budget (add_budget (add_budget initial_state ''Health'' 40 ''2025-01'')
                 ''Food'' 60 ''2025-01'') ''Food'' 75 ''2025-01''))) = 1"
proof -
  let ?s = "add_budget initial_state ''Health'' 40 ''2025-01''"
  have d: "distinct (map fst (budgets ?s))"
    by (simp add: add_budget_def dict_set_def initial_state_def Let_def)
  have v: "budgets (add_budget (add_budget ?s ''Food'' 60 ''2025-01'') ''Food'' 75 ''2025-01'')
     = [(''Health_2025-01'', 40), (''Food_2025-01'', 75)]"
    by (simp add: add_budget_def dict_set_def initial_state_def Let_def)
  from d v add_budget_overwrites [of ?s "''Food''" 60 "''2025-01''" 75] show ?thesis
    by simp
qed


section \<open>Grouping\<close>




section \<open>Top transactions\<close>

lemma sorted_wrt_take: "sorted_wrt P xs \<Longrightarrow> sorted_wrt P (take n xs)"
  by (metis append_take_drop_id sorted_wrt_append)

lemma nlargest_descending:
  "sorted_wrt (\<lambda>a b. col a \<ge> col b) (nlargest n col rows)"
proof -
  have "sorted (map (\<lambda>r. - col r) (sort_key (\<lambda>r. - col r) rows))"
    by (rule sorted_sort_key)
  then have "sorted_wrt (\<lambda>a b. col a \<ge> col b) (sort_key (\<lambda>r. - col r) rows)"
    by (simp add: sorted_wrt_map)
  then show ?thesis
    by (simp add: nlargest_def sorted_wrt_take)
qed

lemma nlargest_stable:
  "prefix (filter (\<lambda>r. col r = a) (nlargest n col rows)) (filter (\<lambda>r. col r = a) rows)"
proof -
  let ?s = "sort_key (\<lambda>r. - col r) rows"
  have "filter (\<lambda>r. - col r = - a) ?s = filter (\<lambda>r. - col r = - a) rows"
    by (rule sort_key_stable)
  then have st: "filter (\<lambda>r. col r = a) ?s = filter (\<lambda>r. col r = a) rows"
    by simp
  have "prefix (filter (\<lambda>r. col r = a) (take (nat n) ?s)) (filter (\<lambda>r. col r = a) ?s)"
    by (rule filter_mono_prefix) (rule take_is_prefix)
  then show ?thesis
    by (simp only: nlargest_def st)
qed

lemma length_nlargest: "length (nlargest n col rows) = min (nat n) (length rows)"
  by (simp add: nlargest_def)

lemma nlargest_largest:
  "\<exists>rest. mset (nlargest n col rows @ rest) = mset rows
     \<and> (\<forall>x\<in>set (nlargest n col rows). \<forall>y\<in>set rest. col y \<le> col x)"
proof -
  let ?s = "sort_key (\<lambda>r. - col r) rows"
  have s: "sorted_wrt (\<lambda>a b. col a \<ge> col b) ?s"
    using sorted_sort_key [of "\<lambda>r. - col r" rows] by (simp add: sorted_wrt_map)
  have "?s = take (nat n) ?s @ drop (nat n) ?s" by simp
  with s have "sorted_wrt (\<lambda>a b. col a \<ge> col b) (take (nat n) ?s @ drop (nat n) ?s)" by simp
  then have "\<forall>x\<in>set (take (nat n) ?s). \<forall>y\<in>set (drop (nat n) ?s). col y \<le> col x"
    by (simp only: sorted_wrt_append) blast
  moreover have "mset (take (nat n) ?s @ drop (nat n) ?s) = mset rows" by simp
  ultimately show ?thesis
    unfolding nlargest_def by blast
qed

lemma top_amount_project: "top_amount (project t) = amount t"
  by (simp add: project_def)

text \<open>
  Claim C3.  For a count \<open>n \<ge> 0\<close>, the top transactions are the projections of selected
  ledger records: the selected records together with the records left out are the whole
  ledger, no record left out has a larger amount than a selected one, the records of any one
  amount are selected in their original order, first occurrences first; the result is in
  descending order of amount; its length is the minimum of \<open>n\<close> and the ledger size; and
  it is empty for the empty ledger.
\<close>

theorem get_top_transactions_sorted_stable:
  "0 \<le> n \<Longrightarrow>
   (\<exists>sel rest.
      get_top_transactions df n = map project sel
      \<and> mset (sel @ rest) = mset df
      \<and> (\<forall>x\<in>set sel. \<forall>y\<in>set rest. amount y \<le> amount x)
      \<and> (\<forall>a. prefix (filter (\<lambda>t. amount t = a) sel) (filter (\<lambda>t. amount t = a) df)))
   \<and> sorted_wrt (\<lambda>r r'. top_amount r \<ge> top_amount r') (get_top_transactions df n)
   \<and> int (length (get_top_transactions df n)) = min n (int (length df))
   \<and> get_top_transactions [] n = []"
proof (intro conjI)
  assume n: "0 \<le> n"
  obtain rest where rest: "mset (nlargest n amount df @ rest) = mset df"
      "\<forall>x\<in>set (nlargest n amount df). \<forall>y\<in>set rest. amount y \<le> amount x"
    using nlargest_largest [of n amount df] by blast
  have eq: "get_top_transactions df n = map project (nlargest n amount df)"
    by (simp add: get_top_transactions_def nlargest_def)
  show "\<exists>sel rest.
      get_top_transactions df n = map project sel
      \<and> mset (sel @ rest) = mset df
      \<and> (\<forall>x\<in>set sel. \<forall>y\<in>set rest. amount y \<le> amount x)
      \<and> (\<forall>a. prefix (filter (\<lambda>t. amount t = a) sel) (filter (\<lambda>t. amount t = a) df))"
    using eq rest nlargest_stable [of amount _ n df] by blast
  show "sorted_wrt (\<lambda>r r'. top_amount r \<ge> top_amount r') (get_top_transactions df n)"
    using nlargest_descending [of amount n df]
    by (simp add: eq sorted_wrt_map top_amount_project)
  show "int (length (get_top_transactions df n)) = min n (int (length df))"
    using n by (simp add: eq length_nlargest min_def) linarith
  show "get_top_transactions [] n = []"
    by (simp add: get_top_transactions_def)
qed


theorem get_top_transactions_sorted_stable_witness:
  "(0::int) \<le> 2
   \<and> get_top_transactions
        (transactions (append_all initial_state
          [((2025, 1, 1), ''Food'', 50, ''Expense'', ''lunch'', None),
           ((2025, 1, 3), ''Salary'', 1000, ''Income'', ''pay'', None),
           ((2025, 1, 4), ''Bills'', 50, ''Expense'', ''power'', None)])) 2
      = [\<lparr>top_date = (2025, 1, 3), top_category = ''Salary'', top_amount = 1000,
           top_type = ''Income'', top_description = ''pay''\<rparr>,
         \<lparr>top_date = (2025, 1, 1), top_category = ''Food'', top_amount = 50,
           top_type = ''Expense'', top_description = ''lunch''\<rparr>]
   \<and> int (length (get_top_transactions
        (transactions (append_all initial_state
          [((2025, 1, 1), ''Food'', 50, ''Expense'', ''lunch'', None),
           ((2025, 1, 3), ''Salary'', 1000, ''Income'', ''pay'', None),
           ((2025, 1, 4), ''Bills'', 50, ''Expense'', ''power'', None)])) 2)) = 2"
proof -
  let ?df = "transactions (append_all initial_state
          [((2025, 1, 1), ''Food'', 50, ''Expense'', ''lunch'', None),
           ((2025, 1, 3), ''Salary'', 1000, ''Income'', ''pay'', None),
           ((2025, 1, 4), ''Bills'', 50, ''Expense'', ''power'', None)])"
  have n: "(0::int) \<le> 2" by simp
  have len: "length ?df = 3"
    by (simp add: append_all_def add_transaction_def initial_state_def Let_def)
  have l: "int (length (get_top_transactions ?df 2)) = 2"
    using get_top_transactions_sorted_stable [OF n, of ?df] len by simp
  have v: "get_top_transactions ?df 2
      = [\<lparr>top_date = (2025, 1, 3), top_category = ''Salary'', top_amount = 1000,
           top_type = ''Income'', top_description = ''pay''\<rparr>,
         \<lparr>top_date = (2025, 1, 1), top_category = ''Food'', top_amount = 50,
           top_type = ''Expense'', top_description = ''lunch''\<rparr>]"
    by (simp add: get_top_transactions_def nlargest_def project_def append_all_def
        add_transaction_def initial_state_def Let_def numeral_2_eq_2)
  from n l v show ?thesis by simp
qed


section \<open>Trend\<close>












section \<open>Budget alerts and budget overview\<close>

lemma takeWhile_key: "takeWhile (\<lambda>x. x \<noteq> sep) (c @ sep # m) = takeWhile (\<lambda>x. x \<noteq> sep) c"
  by (induction c) simp_all

lemma category_of_budget_key:
  "getitem (str_split CHR ''_'' (c @ ''_'' @ m)) 0 = Inr (takeWhile (\<lambda>x. x \<noteq> CHR ''_'') c)"
  by (simp add: getitem_str_split_0 takeWhile_key)

lemma budget_alert_key:
  "budget_alert df (c @ ''_'' @ m, a) =
     Inr (if a < series_get (get_spending_by_category df None) (takeWhile (\<lambda>x. x \<noteq> CHR ''_'') c) 0
          then Some \<lparr>alert_category = takeWhile (\<lambda>x. x \<noteq> CHR ''_'') c, alert_budget = a,
                 alert_spent = series_get (get_spending_by_category df None)
                                 (takeWhile (\<lambda>x. x \<noteq> CHR ''_'') c) 0,
                 alert_over = series_get (get_spending_by_category df None)
                                 (takeWhile (\<lambda>x. x \<noteq> CHR ''_'') c) 0 - a\<rparr>
          else None)"
  unfolding budget_alert_def
  by (simp only: prod.case category_of_budget_key sum.case Let_def) simp

lemma budget_overview_row_key:
  "budget_overview_row df (c @ ''_'' @ m, a) =
     Inr \<lparr>ov_category = takeWhile (\<lambda>x. x \<noteq> CHR ''_'') c, ov_budget = a,
          ov_spent = series_get (get_spending_by_category df None)
                       (takeWhile (\<lambda>x. x \<noteq> CHR ''_'') c) 0,
          ov_remaining = a - series_get (get_spending_by_category df None)
                       (takeWhile (\<lambda>x. x \<noteq> CHR ''_'') c) 0,
          ov_usage = (if a > 0
                      then series_get (get_spending_by_category df None)
                             (takeWhile (\<lambda>x. x \<noteq> CHR ''_'') c) 0 / a * 100
                      else 0)\<rparr>"
  unfolding budget_overview_row_def
  by (simp only: prod.case category_of_budget_key sum.case Let_def usage_percentage_value)

lemma underscore_split:
  "sep \<in> set c \<Longrightarrow> \<exists>rest. c = takeWhile (\<lambda>x. x \<noteq> sep) c @ sep # rest"
proof -
  assume "sep \<in> set c"
  then have "dropWhile (\<lambda>x. x \<noteq> sep) c \<noteq> []"
    by simp
  then obtain y rest where d: "dropWhile (\<lambda>x. x \<noteq> sep) c = y # rest"
    by (cases "dropWhile (\<lambda>x. x \<noteq> sep) c") auto
  then have "\<not> (y \<noteq> sep)"
    using hd_dropWhile [of "\<lambda>x. x \<noteq> sep" c] by auto
  then have "c = takeWhile (\<lambda>x. x \<noteq> sep) c @ sep # rest"
    using d takeWhile_dropWhile_id [of "\<lambda>x. x \<noteq> sep" c] by simp
  then show ?thesis by blast
qed

lemma budget_alert_any_key:
  "budget_alert df (k, a) =
     Inr (if a < series_get (get_spending_by_category df None) (takeWhile (\<lambda>x. x \<noteq> CHR ''_'') k) 0
          then Some \<lparr>alert_category = takeWhile (\<lambda>x. x \<noteq> CHR ''_'') k, alert_budget = a,
                 alert_spent = series_get (get_spending_by_category df None)
                                 (takeWhile (\<lambda>x. x \<noteq> CHR ''_'') k) 0,
                 alert_over = series_get (get_spending_by_category df None)
                                 (takeWhile (\<lambda>x. x \<noteq> CHR ''_'') k) 0 - a\<rparr>
          else None)"
  unfolding budget_alert_def
  by (simp only: prod.case getitem_str_split_0 sum.case Let_def) simp

lemma alerts_loop_eq:
  "alerts_loop df items acc =
     Inr (acc @ concat (map (\<lambda>item.
        if snd item < series_get (get_spending_by_category df None)
                        (takeWhile (\<lambda>x. x \<noteq> CHR ''_'') (fst item)) 0
        then [\<lparr>alert_category = takeWhile (\<lambda>x. x \<noteq> CHR ''_'') (fst item),
               alert_budget = snd item,
               alert_spent = series_get (get_spending_by_category df None)
                               (takeWhile (\<lambda>x. x \<noteq> CHR ''_'') (fst item)) 0,
               alert_over = series_get (get_spending_by_category df None)
                               (takeWhile (\<lambda>x. x \<noteq> CHR ''_'') (fst item)) 0 - snd item\<rparr>]
        else []) items))"
proof (induction items arbitrary: acc)
  case Nil
  show ?case by simp
next
  case (Cons item items)
  obtain k a where item: "item = (k, a)" by (cases item) auto
  show ?case
    unfolding item alerts_loop.simps budget_alert_any_key
    by (simp add: Cons.IH)
qed

lemma budget_overview_row_any_key:
  "budget_overview_row df (k, a) =
     Inr \<lparr>ov_category = takeWhile (\<lambda>x. x \<noteq> CHR ''_'') k, ov_budget = a,
          ov_spent = series_get (get_spending_by_category df None)
                       (takeWhile (\<lambda>x. x \<noteq> CHR ''_'') k) 0,
          ov_remaining = a - series_get (get_spending_by_category df None)
                       (takeWhile (\<lambda>x. x \<noteq> CHR ''_'') k) 0,
          ov_usage = (if a > 0
                      then series_get (get_spending_by_category df None)
                             (takeWhile (\<lambda>x. x \<noteq> CHR ''_'') k) 0 / a * 100
                      else 0)\<rparr>"
  unfolding budget_overview_row_def
  by (simp only: prod.case getitem_str_split_0 sum.case Let_def usage_percentage_value)

lemma overview_loop_eq:
  "overview_loop df items acc =
     Inr (acc @ map (\<lambda>item.
        \<lparr>ov_category = takeWhile (\<lambda>x. x \<noteq> CHR ''_'') (fst item),
         ov_budget = snd item,
         ov_spent = series_get (get_spending_by_category df None)
                      (takeWhile (\<lambda>x. x \<noteq> CHR ''_'') (fst item)) 0,
         ov_remaining = snd item - series_get (get_spending_by_category df None)
                      (takeWhile (\<lambda>x. x \<noteq> CHR ''_'') (fst item)) 0,
         ov_usage = (if snd item > 0
                     then series_get (get_spending_by_category df None)
                            (takeWhile (\<lambda>x. x \<noteq> CHR ''_'') (fst item)) 0 / snd item * 100
                     else 0)\<rparr>) items)"
proof (induction items arbitrary: acc)
  case Nil
  show ?case by simp
next
  case (Cons item items)
  obtain k a where item: "item = (k, a)" by (cases item) auto
  show ?case
    unfolding item overview_loop.simps budget_overview_row_any_key
    by (simp add: Cons.IH)
qed

text \<open>
  Claim C10.  The category recovered from a budget key is the part of the key before its
  first underscore, which for a category containing an underscore is a proper prefix of the
  category, cut at its first underscore.  The budget alert and the budget overview row of
  such an entry carry that prefix as their category, and their spending is looked up under
  that prefix.  This holds for a registry with one budget and, entry by entry in the order of
  the budget dictionary, for every registry.
\<close>

theorem budget_category_is_key_prefix:
  "getitem (str_split CHR ''_'' (c @ ''_'' @ m)) 0 = Inr (takeWhile (\<lambda>x. x \<noteq> CHR ''_'') c)
   \<and> (CHR ''_'' \<in> set c \<longrightarrow>
        (\<exists>rest. c = takeWhile (\<lambda>x. x \<noteq> CHR ''_'') c @ ''_'' @ rest))
   \<and> check_budget_alerts (add_budget initial_state c a m) df now =
       Inr (if a < series_get (get_spending_by_category df None) (takeWhile (\<lambda>x. x \<noteq> CHR ''_'') c) 0
            then [\<lparr>alert_category = takeWhile (\<lambda>x. x \<noteq> CHR ''_'') c, alert_budget = a,
                   alert_spent = series_get (get_spending_by_category df None)
                                   (takeWhile (\<lambda>x. x \<noteq> CHR ''_'') c) 0,
                   alert_over = series_get (get_spending_by_category df None)
                                   (takeWhile (\<lambda>x. x \<noteq> CHR ''_'') c) 0 - a\<rparr>]
            else [])
   \<and> budget_overview (add_budget (s\<lparr>budgets := []\<rparr>) c a m) =
       Inr [\<lparr>ov_category = takeWhile (\<lambda>x. x \<noteq> CHR ''_'') c, ov_budget = a,
             ov_spent = series_get (get_spending_by_category (get_dataframe s) None)
                          (takeWhile (\<lambda>x. x \<noteq> CHR ''_'') c) 0,
             ov_remaining = a - series_get (get_spending_by_category (get_dataframe s) None)
                          (takeWhile (\<lambda>x. x \<noteq> CHR ''_'') c) 0,
             ov_usage = (if a > 0
                         then series_get (get_spending_by_category (get_dataframe s) None)
                                (takeWhile (\<lambda>x. x \<noteq> CHR ''_'') c) 0 / a * 100
                         else 0)\<rparr>]
   \<and> check_budget_alerts r df now =
     Inr (concat (map (\<lambda>item.
        if snd item < series_get (get_spending_by_category df None)
                        (takeWhile (\<lambda>x. x \<noteq> CHR ''_'') (fst item)) 0
        then [\<lparr>alert_category = takeWhile (\<lambda>x. x \<noteq> CHR ''_'') (fst item),
               alert_budget = snd item,
               alert_spent = series_get (get_spending_by_category df None)
                               (takeWhile (\<lambda>x. x \<noteq> CHR ''_'') (fst item)) 0,
               alert_over = series_get (get_spending_by_category df None)
                               (takeWhile (\<lambda>x. x \<noteq> CHR ''_'') (fst item)) 0 - snd item\<rparr>]
        else []) (budgets r)))
   \<and> budget_overview r =
     Inr (map (\<lambda>item.
        \<lparr>ov_category = takeWhile (\<lambda>x. x \<noteq> CHR ''_'') (fst item),
         ov_budget = snd item,
         ov_spent = series_get (get_spending_by_category (get_dataframe r) None)
                      (takeWhile (\<lambda>x. x \<noteq> CHR ''_'') (fst item)) 0,
         ov_remaining = snd item - series_get (get_spending_by_category (get_dataframe r) None)
                      (takeWhile (\<lambda>x. x \<noteq> CHR ''_'') (fst item)) 0,
         ov_usage = (if snd item > 0
                     then series_get (get_spending_by_category (get_dataframe r) None)
                            (takeWhile (\<lambda>x. x \<noteq> CHR ''_'') (fst item)) 0 / snd item * 100
                     else 0)\<rparr>) (budgets r))"
proof (intro conjI impI)
  show "getitem (str_split CHR ''_'' (c @ ''_'' @ m)) 0 = Inr (takeWhile (\<lambda>x. x \<noteq> CHR ''_'') c)"
    by (rule category_of_budget_key)
next
  assume "CHR ''_'' \<in> set c"
  then show "\<exists>rest. c = takeWhile (\<lambda>x. x \<noteq> CHR ''_'') c @ ''_'' @ rest"
    using underscore_split [of "CHR ''_''" c] by simp
next
  have b: "budgets (add_budget initial_state c a m) = [(c @ ''_'' @ m, a)]"
    by (simp add: add_budget_def dict_set_def initial_state_def Let_def)
  show "check_budget_alerts (add_budget initial_state c a m) df now =
       Inr (if a < series_get (get_spending_by_category df None) (takeWhile (\<lambda>x. x \<noteq> CHR ''_'') c) 0
            then [\<lparr>alert_category = takeWhile (\<lambda>x. x \<noteq> CHR ''_'') c, alert_budget = a,
                   alert_spent = series_get (get_spending_by_category df None)
                                   (takeWhile (\<lambda>x. x \<noteq> CHR ''_'') c) 0,
                   alert_over = series_get (get_spending_by_category df None)
                                   (takeWhile (\<lambda>x. x \<noteq> CHR ''_'') c) 0 - a\<rparr>]
            else [])"
    unfolding check_budget_alerts_def Let_def b alerts_loop.simps budget_alert_key
    by simp
next
  have b: "budgets (add_budget (s\<lparr>budgets := []\<rparr>) c a m) = [(c @ ''_'' @ m, a)]"
    by (simp add: add_budget_def dict_set_def Let_def)
  have d: "get_dataframe (add_budget (s\<lparr>budgets := []\<rparr>) c a m) = get_dataframe s"
    by (simp add: add_budget_def get_dataframe_def Let_def)
  show "budget_overview (add_budget (s\<lparr>budgets := []\<rparr>) c a m) =
       Inr [\<lparr>ov_category = takeWhile (\<lambda>x. x \<noteq> CHR ''_'') c, ov_budget = a,
             ov_spent = series_get (get_spending_by_category (get_dataframe s) None)
                          (takeWhile (\<lambda>x. x \<noteq> CHR ''_'') c) 0,
             ov_remaining = a - series_get (get_spending_by_category (get_dataframe s) None)
                          (takeWhile (\<lambda>x. x \<noteq> CHR ''_'') c) 0,
             ov_usage = (if a > 0
                         then series_get (get_spending_by_category (get_dataframe s) None)
                                (takeWhile (\<lambda>x. x \<noteq> CHR ''_'') c) 0 / a * 100
                         else 0)\<rparr>]"
    unfolding budget_overview_def Let_def b d overview_loop.simps budget_overview_row_key
    by simp
next
  show "check_budget_alerts r df now =
     Inr (concat (map (\<lambda>item.
        if snd item < series_get (get_spending_by_category df None)
                        (takeWhile (\<lambda>x. x \<noteq> CHR ''_'') (fst item)) 0
        then [\<lparr>alert_category = takeWhile (\<lambda>x. x \<noteq> CHR ''_'') (fst item),
               alert_budget = snd item,
               alert_spent = series_get (get_spending_by_category df None)
                               (takeWhile (\<lambda>x. x \<noteq> CHR ''_'') (fst item)) 0,
               alert_over = series_get (get_spending_by_category df None)
                               (takeWhile (\<lambda>x. x \<noteq> CHR ''_'') (fst item)) 0 - snd item\<rparr>]
        else []) (budgets r)))"
    unfolding check_budget_alerts_def Let_def alerts_loop_eq by simp
next
  show "budget_overview r =
     Inr (map (\<lambda>item.
        \<lparr>ov_category = takeWhile (\<lambda>x. x \<noteq> CHR ''_'') (fst item),
         ov_budget = snd item,
         ov_spent = series_get (get_spending_by_category (get_dataframe r) None)
                      (takeWhile (\<lambda>x. x \<noteq> CHR ''_'') (fst item)) 0,
         ov_remaining = snd item - series_get (get_spending_by_category (get_dataframe r) None)
                      (takeWhile (\<lambda>x. x \<noteq> CHR ''_'') (fst item)) 0,
         ov_usage = (if snd item > 0
                     then series_get (get_spending_by_category (get_dataframe r) None)
                            (takeWhile (\<lambda>x. x \<noteq> CHR ''_'') (fst item)) 0 / snd item * 100
                     else 0)\<rparr>) (budgets r))"
    unfolding budget_overview_def Let_def overview_loop_eq by simp
qed

theorem budget_category_is_key_prefix_witness:
  "CHR ''_'' \<in> set ''Home_Office''
   \<and> check_budget_alerts (add_budget initial_state ''Home_Office'' 100 ''2025-02'')
        [\<lparr>date = (2025, 2, 5), category = ''Home_Office'', amount = 500, type = ''Expense'',
          description = ''desk'', tags = [], tid = 0\<rparr>,
         \<lparr>date = (2025, 2, 6), category = ''Home'', amount = 150, type = ''Expense'',
          description = ''paint'', tags = [], tid = 1\<rparr>] ((2025, 2, 20), 0)
      = Inr [\<lparr>alert_category = ''Home'', alert_budget = 100, alert_spent = 150, alert_over = 50\<rparr>]"
proof -
  let ?df = "[\<lparr>date = (2025, 2, 5), category = ''Home_Office'', amount = 500, type = ''Expense'',
          description = ''desk'', tags = [], tid = 0\<rparr>,
         \<lparr>date = (2025, 2, 6), category = ''Home'', amount = 150, type = ''Expense'',
          description = ''paint'', tags = [], tid = 1\<rparr>]"
  have u: "CHR ''_'' \<in> set ''Home_Office''" by simp
  have sp: "series_get (get_spending_by_category ?df None) ''Home'' 0 = 150"
    by (simp add: series_get_def get_spending_by_category_def groupby_sum_def Let_def)
  have "check_budget_alerts (add_budget initial_state ''Home_Office'' 100 ''2025-02'') ?df ((2025, 2, 20), 0)
      = Inr [\<lparr>alert_category = ''Home'', alert_budget = 100, alert_spent = 150, alert_over = 50\<rparr>]"
    using budget_category_is_key_prefix
      [where c = "''Home_Office''" and m = "''2025-02''" and a = 100 and df = ?df
         and now = "((2025, 2, 20), 0)", THEN conjunct2, THEN conjunct2, THEN conjunct1] sp
    by simp
  with u show ?thesis by (rule conjI)
qed

text \<open>
  Claim C1 (what the code does).  The alerts are, in the order of the budget dictionary, one
  record per entry whose spending exceeds the budget amount, with over = spent - budget;
  the category is the part of the key before its first underscore, and the spending is the
  lookup of that category in the spending of all months.  The current time plays no part:
  the current month is computed and not passed to the spending lookup.  With a Food budget
  of 60, one Food expense of 80 dated 2024-12-21 and the current month 2025-02, an alert with
  spent = 80 is emitted, although the Food spending of the current month is empty.
\<close>

theorem check_budget_alerts_ignores_current_month:
  "check_budget_alerts s df now =
     Inr (concat (map (\<lambda>item.
        if snd item < series_get (get_spending_by_category df None)
                        (takeWhile (\<lambda>x. x \<noteq> CHR ''_'') (fst item)) 0
        then [\<lparr>alert_category = takeWhile (\<lambda>x. x \<noteq> CHR ''_'') (fst item),
               alert_budget = snd item,
               alert_spent = series_get (get_spending_by_category df None)
                               (takeWhile (\<lambda>x. x \<noteq> CHR ''_'') (fst item)) 0,
               alert_over = series_get (get_spending_by_category df None)
                               (takeWhile (\<lambda>x. x \<noteq> CHR ''_'') (fst item)) 0 - snd item\<rparr>]
        else []) (budgets s)))
   \<and> check_budget_alerts s df now = check_budget_alerts s df now'
   \<and> check_budget_alerts (add_budget initial_state ''Food'' 60 ''2025-02'')
        [\<lparr>date = (2024, 12, 21), category = ''Food'', amount = 80, type = ''Expense'',
          description = ''feast'', tags = [], tid = 0\<rparr>] ((2025, 2, 20), 0)
      = Inr [\<lparr>alert_category = ''Food'', alert_budget = 60, alert_spent = 80, alert_over = 20\<rparr>]
   \<and> strftime_Ym ((2025, 2, 20), 0) = (2025, 2)
   \<and> get_spending_by_category
        [\<lparr>date = (2024, 12, 21), category = ''Food'', amount = 80, type = ''Expense'',
          description = ''feast'', tags = [], tid = 0\<rparr>] (Some (2025, 2)) = []"
proof (intro conjI)
  show "check_budget_alerts s df now =
     Inr (concat (map (\<lambda>item.
        if snd item < series_get (get_spending_by_category df None)
                        (takeWhile (\<lambda>x. x \<noteq> CHR ''_'') (fst item)) 0
        then [\<lparr>alert_category = takeWhile (\<lambda>x. x \<noteq> CHR ''_'') (fst item),
               alert_budget = snd item,
               alert_spent = series_get (get_spending_by_category df None)
                               (takeWhile (\<lambda>x. x \<noteq> CHR ''_'') (fst item)) 0,
               alert_over = series_get (get_spending_by_category df None)
                               (takeWhile (\<lambda>x. x \<noteq> CHR ''_'') (fst item)) 0 - snd item\<rparr>]
        else []) (budgets s)))"
    unfolding check_budget_alerts_def Let_def alerts_loop_eq by simp
  show "check_budget_alerts s df now = check_budget_alerts s df now'"
    by (simp add: check_budget_alerts_def Let_def)
  show "check_budget_alerts (add_budget initial_state ''Food'' 60 ''2025-02'')
        [\<lparr>date = (2024, 12, 21), category = ''Food'', amount = 80, type = ''Expense'',
          description = ''feast'', tags = [], tid = 0\<rparr>] ((2025, 2, 20), 0)
      = Inr [\<lparr>alert_category = ''Food'', alert_budget = 60, alert_spent = 80, alert_over = 20\<rparr>]"
    by (simp add: check_budget_alerts_def add_budget_def dict_set_def initial_state_def
        budget_alert_def getitem_def series_get_def get_spending_by_category_def groupby_sum_def
        Let_def)
  show "strftime_Ym ((2025, 2, 20), 0) = (2025, 2)"
    by (simp add: strftime_Ym_def)
  show "get_spending_by_category
        [\<lparr>date = (2024, 12, 21), category = ''Food'', amount = 80, type = ''Expense'',
          description = ''feast'', tags = [], tid = 0\<rparr>] (Some (2025, 2)) = []"
    by (simp add: get_spending_by_category_def Let_def)
qed


end
